theory Spec2Isabelle
  imports Complex_Main
begin

section \<open>JavaScript values used by the web frontend\<close>

text \<open>
  Strings are lists of code units. A \<^typ>\<open>char\<close> is a code unit below 256 (the Latin-1
  range of UTF-16); strings containing larger code units are outside the model.
  Numbers that the code only compares, adds and subtracts are integers (\<^typ>\<open>int\<close>);
  a JavaScript double is exact on integers below \<open>2 ^ 53\<close>. \<open>NaN\<close> is \<open>None\<close> of
  \<^typ>\<open>int option\<close>, and \<open>-0\<close> is not distinguished from \<open>0\<close> (the code never divides).
\<close>

datatype js_error = TypeError | SyntaxError | NetworkError | TimeoutError | Error string

text \<open>
  \<open>c.toUpperCase().charCodeAt(0)\<close> for a one-unit string \<open>c\<close>: the ASCII letters and the
  Latin-1 letters with a single upper-case form lose 32; U+00B5 becomes U+039C, U+00DF
  becomes the two units "SS" and U+00FF becomes U+0178.
\<close>

definition toUpperCase_charCodeAt0 :: "char \<Rightarrow> int" where
  "toUpperCase_charCodeAt0 c =
     (let k = of_char c :: int in
      if 97 \<le> k \<and> k \<le> 122 then k - 32
      else if k = 181 then 924
      else if k = 223 then 83
      else if 224 \<le> k \<and> k \<le> 254 \<and> k \<noteq> 247 then k - 32
      else if k = 255 then 376
      else k)"

text \<open>\<open>String.fromCharCode(k)\<close> keeps the low 16 bits of \<open>k\<close>; the model is exact when
  those are below 256.\<close>

definition fromCharCode :: "int \<Rightarrow> char" where
  "fromCharCode k = char_of (k mod 65536)"

text \<open>The decimal digits of a number, as \<open>Number.prototype.toString\<close> prints an integer
  below \<open>10 ^ 21\<close>.\<close>

fun digit_string :: "nat \<Rightarrow> string" where
  "digit_string n =
     (if n < 10 then [char_of (48 + n)]
      else digit_string (n div 10) @ [char_of (48 + n mod 10)])"

definition Number_toString :: "int \<Rightarrow> string" where
  "Number_toString n =
     (if n < 0 then CHR ''-'' # digit_string (nat (- n)) else digit_string (nat n))"

subsection \<open>parseInt\<close>

text \<open>
  \<open>parseInt(string, radix)\<close> after ECMA-262: leading white space is dropped, a sign is
  read, with no radix (or radix 16) a prefix \<open>0x\<close>/\<open>0X\<close> selects base 16, and the longest
  prefix of digits of the base is the value; no digit at all gives \<open>NaN\<close>.
  The radix argument is \<open>None\<close> where the call passes none.
\<close>

definition isWhiteSpace :: "char \<Rightarrow> bool" where
  "isWhiteSpace c = (of_char c \<in> {9, 10, 11, 12, 13, 32, 160 :: nat})"

definition digitValue :: "char \<Rightarrow> nat option" where
  "digitValue c =
     (let k = of_char c :: nat in
      if 48 \<le> k \<and> k \<le> 57 then Some (k - 48)
      else if 97 \<le> k \<and> k \<le> 122 then Some (k - 87)
      else if 65 \<le> k \<and> k \<le> 90 then Some (k - 55)
      else None)"

definition isRadixDigit :: "nat \<Rightarrow> char \<Rightarrow> bool" where
  "isRadixDigit R c = (case digitValue c of None \<Rightarrow> False | Some d \<Rightarrow> d < R)"

definition digitsValue :: "nat \<Rightarrow> string \<Rightarrow> nat" where
  "digitsValue R Z = foldl (\<lambda>acc c. acc * R + (case digitValue c of None \<Rightarrow> 0 | Some d \<Rightarrow> d)) 0 Z"

definition parseInt :: "string \<Rightarrow> nat option \<Rightarrow> int option" where
  "parseInt str radix =
     (let S = dropWhile isWhiteSpace str;
          sign = (if S \<noteq> [] \<and> hd S = CHR ''-'' then - 1 else 1 :: int);
          S1 = (if S \<noteq> [] \<and> (hd S = CHR ''+'' \<or> hd S = CHR ''-'') then tl S else S);
          R0 = (case radix of None \<Rightarrow> 0 | Some r \<Rightarrow> r)
      in if R0 \<noteq> 0 \<and> (R0 < 2 \<or> 36 < R0) then None
         else
           let stripPrefix = (R0 = 0 \<or> R0 = 16);
               hasPrefix = (stripPrefix \<and> (take 2 S1 = ''0x'' \<or> take 2 S1 = ''0X''));
               S2 = (if hasPrefix then drop 2 S1 else S1);
               R = (if hasPrefix then 16 else if R0 = 0 then 10 else R0);
               Z = takeWhile (isRadixDigit R) S2
           in if Z = [] then None else Some (sign * int (digitsValue R Z)))"

section \<open>Coordinates\<close>

subsection \<open>The board renderer (GoBoard component)\<close>

text \<open>\<open>board_size\<close> is the component's variable; here it is the first argument.\<close>

definition GoBoard_getCoordinate :: "int \<Rightarrow> int \<Rightarrow> int \<Rightarrow> string" where
  "GoBoard_getCoordinate board_size row col =
     (let letter = (if col \<ge> 8 then fromCharCode (66 + col) else fromCharCode (65 + col));
          number = board_size - row
      in letter # Number_toString number)"

definition GoBoard_parseCoordinate :: "int \<Rightarrow> string \<Rightarrow> (int \<times> int) option" where
  "GoBoard_parseCoordinate board_size coord =
     (if length coord < 2 then None
      else
        (case parseInt (tl coord) (Some 10) of
           None \<Rightarrow> None
         | Some number \<Rightarrow>
             let charCode = toUpperCase_charCodeAt0 (hd coord);
                 col = (if charCode > 73 then charCode - 66 else charCode - 65);
                 row = board_size - number
             in if row < 0 \<or> row \<ge> board_size \<or> col < 0 \<or> col \<ge> board_size then None
                else Some (row, col)))"

subsection \<open>The page controller\<close>

text \<open>
  The controller's own parser takes the board size as an argument, passes no radix to
  \<open>parseInt\<close> and checks nothing: on the empty string \<open>coord[0]\<close> is \<open>undefined\<close> and the
  call of \<open>toUpperCase\<close> throws; a missing number leaves the row \<open>NaN\<close>.
\<close>

definition page_parseCoordinate :: "string \<Rightarrow> int \<Rightarrow> js_error + (int option \<times> int)" where
  "page_parseCoordinate coord boardSize =
     (case coord of
        [] \<Rightarrow> Inl TypeError
      | c # rest \<Rightarrow>
          let number = parseInt rest None;
              col0 = toUpperCase_charCodeAt0 c - 65;
              col = (if col0 \<ge> 8 then col0 - 1 else col0);
              row = map_option (\<lambda>n. boardSize - n) number
          in Inr (row, col))"


subsection \<open>Star points\<close>

text \<open>
  \<open>stars[r][c] = true\<close>: reading \<open>stars[r]\<close> beyond the array gives \<open>undefined\<close> and the
  assignment throws; a column beyond the row extends the row (the holes read as
  \<open>undefined\<close>, which is falsy). \<open>forEach\<close> runs the callback on each element in order.
\<close>

definition set_star :: "nat \<Rightarrow> nat \<Rightarrow> bool list list \<Rightarrow> js_error + bool list list" where
  "set_star r c stars =
     (if r < length stars then
        let row = stars ! r
        in Inr (stars[r := (if c < length row then row[c := True]
                            else row @ replicate (c - length row) False @ [True])])
      else Inl TypeError)"

fun forEach :: "'a list \<Rightarrow> ('a \<Rightarrow> 's \<Rightarrow> js_error + 's) \<Rightarrow> 's \<Rightarrow> js_error + 's" where
  "forEach [] f s = Inr s"
| "forEach (x # xs) f s = (case f x s of Inl e \<Rightarrow> Inl e | Inr s' \<Rightarrow> forEach xs f s')"

definition renderStarPoints :: "nat \<Rightarrow> js_error + bool list list" where
  "renderStarPoints sz =
     (let stars = replicate sz (replicate sz False)
      in if sz = 19 then
           forEach [3, 9, 15] (\<lambda>r. forEach [3, 9, 15] (\<lambda>c. set_star r c)) stars
         else if sz = 13 then
           forEach [3, 9] (\<lambda>r. forEach [3, 9] (\<lambda>c. set_star r c)) stars
         else if sz = 9 then
           (let positions = [2, 6]
            in case forEach positions (\<lambda>r. forEach positions (\<lambda>c. set_star r c)) stars of
                 Inl e \<Rightarrow> Inl e
               | Inr stars' \<Rightarrow> set_star 4 4 stars')
         else Inr stars)"

text \<open>The intersections the renderer draws a star on: those \<open>(r, c)\<close> with \<open>starPoints[r][c]\<close>.\<close>

definition star_points :: "bool list list \<Rightarrow> (nat \<times> nat) list" where
  "star_points stars =
     concat (map (\<lambda>r. map (\<lambda>c. (r, c)) (filter (\<lambda>c. stars ! r ! c) [0..<length (stars ! r)]))
                 [0..<length stars])"

section \<open>Game setup\<close>

record config =
  cfg_boardSize :: int
  cfg_komi :: rat
  cfg_handicap :: int
  cfg_userColor :: string
  cfg_persona :: string

text \<open>The condition \<open>startGame\<close> computes to decide whether it requests the first move.\<close>

definition llmShouldMoveFirst :: "config \<Rightarrow> bool" where
  "llmShouldMoveFirst config =
     ((cfg_handicap config = 0 \<and> cfg_userColor config = ''W'') \<or>
      (cfg_handicap config > 0 \<and> cfg_userColor config = ''B''))"


section \<open>The API client\<close>

subsection \<open>Data exchanged with the backend\<close>

text \<open>
  The interfaces of the API client that the controller builds or reads at their
  declared shape, one record each. A field carries the interface's initial where two
  interfaces share its name (\<open>board_size\<close>, \<open>komi\<close>, ...). \<open>komi\<close> and \<open>score_delta\<close> are
  decimal fractions that the client only passes on. A board state (\<open>BoardState\<close>) is
  kept as the JSON value that the backend sent or that the controller built: the
  client checks the shape of neither.
\<close>

record Game =
  g_id :: int
  g_board_size :: int
  g_komi :: rat
  g_handicap :: int
  g_user_color :: string
  g_ai_color :: string
  g_game_over :: bool
  g_persona :: string
  g_created_at :: string

datatype role = User | Assistant

record ChatMsg =
  c_id :: int
  c_role :: role
  c_content :: string
  c_created_at :: string

text \<open>\<open>KataGoBoardState\<close>: the grid and the size are whatever JSON the engine sent (the
  cast to \<open>string[][]\<close> checks nothing), at the API client and at the controller.\<close>

record ('row, 'num) KataGoBoardState =
  k_board :: "'row list"
  k_board_size :: 'num

subsection \<open>JSON values, responses and fetch\<close>

datatype json =
  JNull | JBool bool | JNum rat | JStr string | JArr "json list" | JObj "(string \<times> json) list"

text \<open>A JavaScript value read from parsed JSON is a \<^typ>\<open>json option\<close>: \<open>None\<close> is
  \<open>undefined\<close>. \<open>truthy\<close> is the test that \<open>!x\<close>, \<open>if (x)\<close> and \<open>x || y\<close> make.\<close>

fun truthy :: "json option \<Rightarrow> bool" where
  "truthy None = False"
| "truthy (Some JNull) = False"
| "truthy (Some (JBool b)) = b"
| "truthy (Some (JNum q)) = (q \<noteq> 0)"
| "truthy (Some (JStr s)) = (s \<noteq> [])"
| "truthy (Some (JArr xs)) = True"
| "truthy (Some (JObj kvs)) = True"

text \<open>\<open>x.key\<close> for the keys the client reads (\<open>result\<close>, \<open>board\<close>, \<open>board_size\<close>): a
  \<open>TypeError\<close> on \<open>undefined\<close> and \<open>null\<close>, the member of an object, \<open>undefined\<close> on every
  other value. \<open>Array.isArray(x)\<close>, the elements of an array (\<open>x.length\<close> is their
  number) and \<open>a || b\<close> follow.\<close>

fun get_property :: "json option \<Rightarrow> string \<Rightarrow> js_error + json option" where
  "get_property None key = Inl TypeError"
| "get_property (Some JNull) key = Inl TypeError"
| "get_property (Some (JObj kvs)) key = Inr (map_of kvs key)"
| "get_property (Some v) key = Inr None"

fun Array_isArray :: "json option \<Rightarrow> bool" where
  "Array_isArray (Some (JArr xs)) = True"
| "Array_isArray v = False"

fun elements :: "json option \<Rightarrow> json list" where
  "elements (Some (JArr xs)) = xs"
| "elements v = []"

definition or_json :: "json option \<Rightarrow> json \<Rightarrow> json" where
  "or_json a b = (case a of None \<Rightarrow> b | Some v \<Rightarrow> if truthy a then v else b)"

text \<open>A response gives its status and what \<open>res.text()\<close> and \<open>res.json()\<close> settle to
  (\<open>Inl\<close> is a rejection). \<open>fetch\<close> maps a request to a rejection or a response; a
  request aborted by its timeout signal is rejected with \<open>TimeoutError\<close>.\<close>

record response =
  ok :: bool
  status :: int
  res_text :: "js_error + string"
  res_json :: "js_error + json"

record request =
  url :: string
  http_method :: string
  body :: "json option"
  signal_timeout :: "nat option"

type_synonym fetch = "request \<Rightarrow> js_error + response"

subsection \<open>Operations\<close>

text \<open>
  Each operation makes one request and settles as written: \<open>Inl\<close> is a rejection of
  the returned promise. The two base addresses come from the environment and are
  arguments here, as is \<open>fetch\<close>; an argument that the source defaults (\<open>role = 'user'\<close>,
  the game parameters) is passed by the caller. Request headers are left out.
\<close>

definition createGame ::
  "fetch \<Rightarrow> string \<Rightarrow> int \<Rightarrow> rat \<Rightarrow> int \<Rightarrow> string \<Rightarrow> string \<Rightarrow> js_error + json" where
  "createGame fetch API_BASE boardSize komi handicap userColor persona =
     (case fetch \<lparr>url = API_BASE @ ''/initialize/'', http_method = ''POST'',
                   body = Some (JObj [(''board_size'', JNum (of_int boardSize)), (''komi'', JNum komi),
                                      (''handicap'', JNum (of_int handicap)),
                                      (''user_color'', JStr userColor), (''persona'', JStr persona)]),
                   signal_timeout = None\<rparr> of
        Inl e \<Rightarrow> Inl e
      | Inr res \<Rightarrow> res_json res)"

definition getGameBoard :: "fetch \<Rightarrow> string \<Rightarrow> int \<Rightarrow> js_error + json" where
  "getGameBoard fetch API_BASE gameId =
     (case fetch \<lparr>url = API_BASE @ ''/games/'' @ Number_toString gameId @ ''/board/'',
                   http_method = ''GET'', body = None, signal_timeout = None\<rparr> of
        Inl e \<Rightarrow> Inl e
      | Inr res \<Rightarrow> res_json res)"

definition submitMove :: "fetch \<Rightarrow> string \<Rightarrow> int \<Rightarrow> string \<Rightarrow> js_error + json" where
  "submitMove fetch API_BASE gameId coordinate =
     (case fetch \<lparr>url = API_BASE @ ''/games/'' @ Number_toString gameId @ ''/submit_move/'',
                   http_method = ''POST'', body = Some (JObj [(''coordinate'', JStr coordinate)]),
                   signal_timeout = None\<rparr> of
        Inl e \<Rightarrow> Inl e
      | Inr res \<Rightarrow> res_json res)"

definition getChatMessages :: "fetch \<Rightarrow> string \<Rightarrow> int \<Rightarrow> js_error + json" where
  "getChatMessages fetch API_BASE gameId =
     (case fetch \<lparr>url = API_BASE @ ''/chat/?game_id='' @ Number_toString gameId,
                   http_method = ''GET'', body = None, signal_timeout = None\<rparr> of
        Inl e \<Rightarrow> Inl e
      | Inr res \<Rightarrow> res_json res)"

definition sendChatMessage ::
  "fetch \<Rightarrow> string \<Rightarrow> int \<Rightarrow> string \<Rightarrow> string \<Rightarrow> js_error + json" where
  "sendChatMessage fetch API_BASE gameId content role =
     (case fetch \<lparr>url = API_BASE @ ''/chat/send_message/'', http_method = ''POST'',
                   body = Some (JObj [(''game_id'', JNum (of_int gameId)), (''content'', JStr content),
                                      (''role'', JStr role)]),
                   signal_timeout = None\<rparr> of
        Inl e \<Rightarrow> Inl e
      | Inr res \<Rightarrow>
          if \<not> ok res then
            (case res_text res of
               Inl e \<Rightarrow> Inl e
             | Inr error \<Rightarrow> Inl (Error (''API error: '' @ error)))
          else res_json res)"

definition getFirstMove :: "fetch \<Rightarrow> string \<Rightarrow> int \<Rightarrow> js_error + json" where
  "getFirstMove fetch API_BASE gameId =
     (case fetch \<lparr>url = API_BASE @ ''/games/'' @ Number_toString gameId @ ''/first_move/'',
                   http_method = ''POST'', body = None, signal_timeout = None\<rparr> of
        Inl e \<Rightarrow> Inl e
      | Inr res \<Rightarrow> res_json res)"

text \<open>\<open>getKataGoBoardState\<close>: the body of its \<open>try\<close> block, where \<open>Inl\<close> is an exception
  raised inside the block, and the function itself, whose \<open>catch\<close> turns every
  exception into \<open>null\<close>.\<close>

definition board_state_request :: "string \<Rightarrow> request" where
  "board_state_request MCP_BASE =
     \<lparr>url = MCP_BASE @ ''/board_state'', http_method = ''GET'', body = None,
      signal_timeout = Some 10000\<rparr>"

definition getKataGoBoardState_try ::
  "fetch \<Rightarrow> string \<Rightarrow> js_error + (json, json) KataGoBoardState option" where
  "getKataGoBoardState_try fetch MCP_BASE =
     (case fetch (board_state_request MCP_BASE) of
        Inl e \<Rightarrow> Inl e
      | Inr res \<Rightarrow>
          if \<not> ok res then Inr None
          else
            (case res_json res of
               Inl e \<Rightarrow> Inl e
             | Inr data \<Rightarrow>
                 (case get_property (Some data) ''result'' of
                    Inl e \<Rightarrow> Inl e
                  | Inr result \<Rightarrow>
                      if \<not> truthy result then Inr None
                      else
                        (case get_property result ''board'' of
                           Inl e \<Rightarrow> Inl e
                         | Inr board \<Rightarrow>
                             if \<not> truthy board \<or> \<not> Array_isArray board \<or>
                                length (elements board) = 0
                             then Inr None
                             else
                               (case get_property result ''board_size'' of
                                  Inl e \<Rightarrow> Inl e
                                | Inr board_size \<Rightarrow>
                                    Inr (Some \<lparr>k_board = elements board,
                                               k_board_size =
                                                 or_json board_size
                                                   (JNum (of_nat (length (elements board))))\<rparr>))))))"

definition getKataGoBoardState ::
  "fetch \<Rightarrow> string \<Rightarrow> js_error + (json, json) KataGoBoardState option" where
  "getKataGoBoardState fetch MCP_BASE =
     (case getKataGoBoardState_try fetch MCP_BASE of
        Inl err \<Rightarrow> Inr None
      | Inr r \<Rightarrow> Inr r)"


section \<open>The page controller's move submission\<close>

text \<open>
  What \<open>submitMove\<close>, \<open>getKataGoBoardState\<close> and \<open>getGameBoard\<close> settle to is given by the
  environment, together with the clock readings the handler takes. The engine's board
  state is what \<open>getKataGoBoardState\<close> returns (a non-empty array of any JSON values and
  a size) and the database's board is any JSON value, as \<open>getGameBoard\<close> returns it;
  the board state that the controller holds is \<open>null\<close> (\<open>None\<close>) or such a value. The
  game and the result of \<open>submitMove\<close> are taken at their declared interfaces; \<open>ai_move\<close>
  is \<open>None\<close> when the backend reports no move. One run of the handler is modelled on
  its own: no other handler runs between its steps.
\<close>

record submit_result =
  r_game :: Game
  r_user_move :: string
  r_ai_move :: "string option"
  r_score_delta :: rat
  r_bot_response :: string

record pending_move =
  p_row :: "int option"
  p_col :: int
  p_color :: string

record page_state =
  game :: "Game option"
  boardState :: "json option"
  messages :: "ChatMsg list"
  isSubmitting :: bool
  isThinking :: bool
  previewCoord :: "string option"
  error :: "string option"
  pendingMove :: "pending_move option"
  lastMoveCoord :: "string option"

record move_env =
  Date_now_userMsgId :: int
  Date_now_reply :: int
  toISOString_optimistic :: string
  toISOString_user :: string
  toISOString_reply :: string
  env_submitMove :: "int \<Rightarrow> string \<Rightarrow> js_error + submit_result"
  env_getKataGoBoardState :: "(json, json) KataGoBoardState option"
  env_getGameBoard :: "int \<Rightarrow> js_error + json"

text \<open>\<open>prev?.key\<close>: \<open>undefined\<close> on \<open>null\<close> and \<open>undefined\<close>, the property otherwise.\<close>

definition optional_property :: "json option \<Rightarrow> string \<Rightarrow> json option" where
  "optional_property v key = (case get_property v key of Inl e \<Rightarrow> None | Inr x \<Rightarrow> x)"

text \<open>The state that the updater passed to \<open>setBoardState\<close> builds from the engine's
  board, the previous board state \<open>prev\<close> and the game: an object with these seven
  members.\<close>

definition newState :: "Game \<Rightarrow> (json, json) KataGoBoardState \<Rightarrow> json option \<Rightarrow> json" where
  "newState game0 kataGoBoard prev =
     JObj [(''board_size'', k_board_size kataGoBoard),
           (''komi'', or_json (optional_property prev ''komi'') (JNum (g_komi game0))),
           (''user_color'',
              or_json (optional_property prev ''user_color'') (JStr (g_user_color game0))),
           (''ai_color'', or_json (optional_property prev ''ai_color'') (JStr (g_ai_color game0))),
           (''game_over'',
              or_json (optional_property prev ''game_over'') (JBool (g_game_over game0))),
           (''board'', JArr (k_board kataGoBoard)),
           (''moves'', or_json (optional_property prev ''moves'') (JArr []))]"

text \<open>
  The two reads that the handler makes of the engine's grid before it sets the board
  state. \<open>board[0].join('')\<close> throws unless the first row is an array.
  \<open>board.some(row => row.some(cell => cell !== '.'))\<close> visits the rows in order, throws
  at a row that is not an array and stops at the first row holding a cell other than
  the string \<open>.\<close>.
\<close>

definition first_row_join :: "json list \<Rightarrow> js_error + unit" where
  "first_row_join board =
     (case board of
        [] \<Rightarrow> Inl TypeError
      | row # rows \<Rightarrow> if Array_isArray (Some row) then Inr () else Inl TypeError)"

fun board_contains_stones :: "json list \<Rightarrow> js_error + bool" where
  "board_contains_stones [] = Inr False"
| "board_contains_stones (row # rows) =
     (if Array_isArray (Some row) then
        (if list_ex (\<lambda>cell. cell \<noteq> JStr ''.'') (elements (Some row)) then Inr True
         else board_contains_stones rows)
      else Inl TypeError)"

text \<open>\<open>x.length\<close> for its exception only: a \<open>TypeError\<close> on \<open>undefined\<close> and \<open>null\<close>.\<close>

fun read_length :: "json option \<Rightarrow> js_error + unit" where
  "read_length None = Inl TypeError"
| "read_length (Some JNull) = Inl TypeError"
| "read_length (Some v) = Inr ()"

definition user_entry :: "int \<Rightarrow> string \<Rightarrow> string \<Rightarrow> ChatMsg" where
  "user_entry userMsgId coordinate created =
     \<lparr>c_id = userMsgId, c_role = User, c_content = ''My move: '' @ coordinate,
      c_created_at = created\<rparr>"

text \<open>The \<open>else\<close> branch: the board is fetched from the database, \<open>board.board.length\<close> is
  read, and the board state is set; a rejected fetch and a failed read are thrown into
  the handler's \<open>catch\<close>.\<close>

definition database_fallback ::
  "move_env \<Rightarrow> Game \<Rightarrow> page_state \<Rightarrow> page_state \<times> js_error option" where
  "database_fallback env game0 s =
     (case env_getGameBoard env (g_id game0) of
        Inl e \<Rightarrow> (s, Some e)
      | Inr board \<Rightarrow>
          (case get_property (Some board) ''board'' of
             Inl e \<Rightarrow> (s, Some e)
           | Inr rows \<Rightarrow>
               (case read_length rows of
                  Inl e \<Rightarrow> (s, Some e)
                | Inr u \<Rightarrow> (s\<lparr>boardState := Some board\<rparr>, None))))"

text \<open>The \<open>try\<close> block: the state it leaves, and the exception it was left by, if any.\<close>

definition handleMoveSubmit_try ::
  "move_env \<Rightarrow> Game \<Rightarrow> string \<Rightarrow> int \<Rightarrow> page_state \<Rightarrow> page_state \<times> js_error option" where
  "handleMoveSubmit_try env game0 coordinate userMsgId s =
     (case env_submitMove env (g_id game0) coordinate of
        Inl e \<Rightarrow> (s, Some e)
      | Inr result \<Rightarrow>
          let s1 = s\<lparr>messages :=
                     filter (\<lambda>m. c_id m \<noteq> userMsgId) (messages s) @
                     [user_entry userMsgId coordinate (toISOString_user env),
                      \<lparr>c_id = Date_now_reply env + 1, c_role = Assistant,
                       c_content = r_bot_response result,
                       c_created_at = toISOString_reply env\<rparr>]\<rparr>;
              s2 = s1\<lparr>lastMoveCoord :=
                     Some (case r_ai_move result of
                             None \<Rightarrow> coordinate
                           | Some ai_move \<Rightarrow> if ai_move \<noteq> [] then ai_move else coordinate)\<rparr>
          in case env_getKataGoBoardState env of
               None \<Rightarrow> database_fallback env game0 s2
             | Some kataGoBoard \<Rightarrow>
                 if length (k_board kataGoBoard) > 0 then
                   (case first_row_join (k_board kataGoBoard) of
                      Inl e \<Rightarrow> (s2, Some e)
                    | Inr u \<Rightarrow>
                        (case board_contains_stones (k_board kataGoBoard) of
                           Inl e \<Rightarrow> (s2, Some e)
                         | Inr stones \<Rightarrow>
                             (s2\<lparr>boardState :=
                                   Some (newState game0 kataGoBoard (boardState s2))\<rparr>,
                              None)))
                 else database_fallback env game0 s2)"

text \<open>The state shown while the move is in flight: what the handler has set when it
  reaches the call of \<open>submitMove\<close>.\<close>

definition handleMoveSubmit_begin ::
  "move_env \<Rightarrow> Game \<Rightarrow> string \<Rightarrow> int option \<Rightarrow> int \<Rightarrow> page_state \<Rightarrow> page_state" where
  "handleMoveSubmit_begin env game0 coordinate row col s =
     (let s1 = s\<lparr>previewCoord := None, error := None\<rparr>;
          s2 = s1\<lparr>pendingMove := Some \<lparr>p_row = row, p_col = col, p_color = g_user_color game0\<rparr>\<rparr>;
          s3 = s2\<lparr>messages :=
                 messages s2 @
                 [user_entry (Date_now_userMsgId env) coordinate (toISOString_optimistic env)]\<rparr>
      in s3\<lparr>isSubmitting := True, isThinking := True\<rparr>)"

text \<open>\<open>handleMoveSubmit\<close>: the new state and, when the handler's promise is rejected, the
  exception (only the parser, called before the \<open>try\<close>, can cause that).\<close>

definition handleMoveSubmit ::
  "move_env \<Rightarrow> string \<Rightarrow> page_state \<Rightarrow> page_state \<times> js_error option" where
  "handleMoveSubmit env coordinate s =
     (case game s of
        None \<Rightarrow> (s, None)
      | Some game0 \<Rightarrow>
          if isSubmitting s then (s, None)
          else
            (case page_parseCoordinate coordinate (g_board_size game0) of
               Inl e \<Rightarrow> (s\<lparr>previewCoord := None, error := None\<rparr>, Some e)
             | Inr (row, col) \<Rightarrow>
                 let userMsgId = Date_now_userMsgId env;
                     s4 = handleMoveSubmit_begin env game0 coordinate row col s;
                     (s5, thrown) = handleMoveSubmit_try env game0 coordinate userMsgId s4;
                     s6 = (case thrown of
                             None \<Rightarrow> s5
                           | Some err \<Rightarrow>
                               s5\<lparr>error := Some ''Failed to submit move'',
                                  messages := filter (\<lambda>m. c_id m \<noteq> userMsgId) (messages s5)\<rparr>)
                 in (s6\<lparr>isSubmitting := False, isThinking := False, pendingMove := None\<rparr>,
                     None)))"

text \<open>The renderer's click handler. \<open>board_size\<close> is the component's variable, as in
  \<open>getCoordinate\<close>; \<open>isSubmitting\<close> and \<open>onMoveSubmit\<close> are the controller's flag and
  handler, passed as properties.\<close>

definition handleCellClick ::
  "move_env \<Rightarrow> int \<Rightarrow> int \<Rightarrow> int \<Rightarrow> page_state \<Rightarrow> page_state \<times> js_error option" where
  "handleCellClick env board_size row col s =
     (if isSubmitting s then (s, None)
      else handleMoveSubmit env (GoBoard_getCoordinate board_size row col) s)"

section \<open>Auxiliary notions and example inputs\<close>

text \<open>A \<open>fetch\<close> whose responses carry another status: used to state that an operation
  does not look at the status.\<close>

definition with_status :: "bool \<Rightarrow> int \<Rightarrow> fetch \<Rightarrow> fetch" where
  "with_status b st fetch =
     (\<lambda>rq. case fetch rq of Inl e \<Rightarrow> Inl e | Inr res \<Rightarrow> Inr (res\<lparr>ok := b, status := st\<rparr>))"

text \<open>Concrete inputs on which the theorems below are instantiated.\<close>

definition example_game :: Game where
  "example_game =
     \<lparr>g_id = 7, g_board_size = 19, g_komi = 13 / 2, g_handicap = 0, g_user_color = ''B'',
      g_ai_color = ''W'', g_game_over = True, g_persona = ''arrogant'',
      g_created_at = ''2025-01-01T00:00:00Z''\<rparr>"

definition example_board :: json where
  "example_board =
     JObj [(''board_size'', JNum 19), (''komi'', JNum 0), (''user_color'', JStr ''B''),
           (''ai_color'', JStr ''W''), (''game_over'', JBool False), (''board'', JArr []),
           (''moves'', JArr [])]"

definition example_database_board :: json where
  "example_database_board =
     JObj [(''board_size'', JNum 19), (''komi'', JNum (13 / 2)), (''user_color'', JStr ''B''),
           (''ai_color'', JStr ''W''), (''game_over'', JBool False),
           (''board'', JArr [JArr [JStr ''.'', JStr ''B''], JArr [JStr ''W'', JStr ''.'']]),
           (''moves'', JArr [JObj [(''id'', JNum 1), (''color'', JStr ''B''),
                                   (''coordinate'', JStr ''Q16''), (''move_number'', JNum 1)]])]"

definition example_engine_board :: "(json, json) KataGoBoardState" where
  "example_engine_board =
     \<lparr>k_board = [JArr [JStr ''B'', JStr ''.''], JArr [JStr ''.'', JStr ''W'']],
      k_board_size = JNum 2\<rparr>"

definition example_state :: page_state where
  "example_state =
     \<lparr>game = Some example_game, boardState = Some example_board,
      messages = [\<lparr>c_id = 5, c_role = Assistant, c_content = ''Your move.'',
                   c_created_at = ''2025-01-01T00:00:01Z''\<rparr>],
      isSubmitting = False, isThinking = False, previewCoord = Some ''Q16'', error = None,
      pendingMove = None, lastMoveCoord = None\<rparr>"

definition example_result :: submit_result where
  "example_result =
     \<lparr>r_game = example_game, r_user_move = ''Q16'', r_ai_move = Some ''D4'',
      r_score_delta = 1 / 2, r_bot_response = ''Is that all?''\<rparr>"

definition example_env :: move_env where
  "example_env =
     \<lparr>Date_now_userMsgId = 1000, Date_now_reply = 2000,
      toISOString_optimistic = ''2025-01-01T00:00:02Z'',
      toISOString_user = ''2025-01-01T00:00:03Z'',
      toISOString_reply = ''2025-01-01T00:00:03Z'',
      env_submitMove = (\<lambda>gameId coordinate. Inr example_result),
      env_getKataGoBoardState = Some example_engine_board,
      env_getGameBoard = (\<lambda>gameId. Inr example_database_board)\<rparr>"

definition example_response :: "bool \<Rightarrow> js_error + json \<Rightarrow> response" where
  "example_response b j =
     \<lparr>ok = b, status = (if b then 200 else 500), res_text = Inr ''body'', res_json = j\<rparr>"

section \<open>Properties of the coordinate functions\<close>

subsection \<open>Decimal numerals\<close>

declare digit_string.simps [simp del]

lemma digit_char_value: "(d::nat) < 10 \<Longrightarrow> digitValue (char_of (48 + d)) = Some d"
  by (simp add: digitValue_def)

lemma digit_char_radix: "(d::nat) < 10 \<Longrightarrow> isRadixDigit 10 (char_of (48 + d))"
  by (simp add: isRadixDigit_def digit_char_value)

lemma digit_string_digits: "c \<in> set (digit_string n) \<Longrightarrow> isRadixDigit 10 c"
proof (induction n arbitrary: c rule: digit_string.induct)
  case (1 n)
  show ?case
  proof (cases "n < 10")
    case True
    with "1.prems" show ?thesis
      by (simp add: digit_string.simps [of n] digit_char_radix)
  next
    case False
    with "1.prems" "1.IH" show ?thesis
      by (auto simp add: digit_string.simps [of n] digit_char_radix)
  qed
qed

lemma digit_string_nonempty: "digit_string n \<noteq> []"
  by (subst digit_string.simps) simp

lemma digitsValue_snoc:
  "digitsValue R (Z @ [c]) = digitsValue R Z * R + (case digitValue c of None \<Rightarrow> 0 | Some d \<Rightarrow> d)"
  by (simp add: digitsValue_def)

lemma digitsValue_digit_string: "digitsValue 10 (digit_string n) = n"
proof (induction n rule: digit_string.induct)
  case (1 n)
  show ?case
  proof (cases "n < 10")
    case True
    then show ?thesis
      by (simp add: digit_string.simps [of n] digitsValue_def digit_char_value)
  next
    case False
    with "1.IH" show ?thesis
      by (simp add: digit_string.simps [of n] digitsValue_snoc digit_char_value)
  qed
qed

lemma radix_digit_plain:
  "isRadixDigit 10 c \<Longrightarrow> \<not> isWhiteSpace c \<and> c \<noteq> CHR ''+'' \<and> c \<noteq> CHR ''-''"
  by (auto simp add: isRadixDigit_def digitValue_def isWhiteSpace_def Let_def split: if_splits)

lemma parseInt_decimal_digits:
  assumes "Z \<noteq> []" and "\<forall>c \<in> set Z. isRadixDigit 10 c"
  shows "parseInt Z (Some 10) = Some (int (digitsValue 10 Z))"
proof -
  obtain c cs where Z: "Z = c # cs" using assms(1) by (cases Z) auto
  have c: "\<not> isWhiteSpace c" "c \<noteq> CHR ''+''" "c \<noteq> CHR ''-''"
    using assms(2) radix_digit_plain [of c] by (simp_all add: Z)
  have tw: "takeWhile (isRadixDigit 10) Z = Z"
    using assms(2) by (simp add: takeWhile_eq_all_conv)
  have dw: "dropWhile isWhiteSpace Z = Z" using c by (simp add: Z)
  show ?thesis
    unfolding parseInt_def dw using c tw assms(1) by (simp add: Z)
qed

lemma parseInt_digit_string: "parseInt (digit_string n) (Some 10) = Some (int n)"
  using parseInt_decimal_digits [of "digit_string n"] digit_string_digits digit_string_nonempty
  by (simp add: digitsValue_digit_string)

lemma parseInt_Number_toString: "0 \<le> n \<Longrightarrow> parseInt (Number_toString n) (Some 10) = Some n"
  by (simp add: Number_toString_def parseInt_digit_string)

lemma letter_code:
  "0 \<le> col \<Longrightarrow> col \<le> 18 \<Longrightarrow>
   toUpperCase_charCodeAt0 (if col \<ge> 8 then fromCharCode (66 + col) else fromCharCode (65 + col))
     = (if col \<ge> 8 then 66 + col else 65 + col)"
  by (simp add: toUpperCase_charCodeAt0_def fromCharCode_def)


lemma letter_not_I:
  "0 \<le> col \<Longrightarrow> col \<le> 18 \<Longrightarrow>
   (if col \<ge> 8 then fromCharCode (66 + col) else fromCharCode (65 + col)) \<noteq> CHR ''I''"
proof
  assume b: "0 \<le> col" "col \<le> 18"
    and e: "(if col \<ge> 8 then fromCharCode (66 + col) else fromCharCode (65 + col)) = CHR ''I''"
  have "toUpperCase_charCodeAt0 (CHR ''I'') = (if col \<ge> 8 then 66 + col else 65 + col)"
    using letter_code [OF b] e by simp
  then show False
    by (simp add: toUpperCase_charCodeAt0_def split: if_splits)
qed

subsection \<open>parseInt with and without a radix\<close>

lemma hex_prefix_decimal_zero:
  assumes "take 2 S = ''0x'' \<or> take 2 S = ''0X''"
  shows "takeWhile (isRadixDigit 10) S = ''0''"
proof -
  obtain b t where "S = CHR ''0'' # b # t" "b = CHR ''x'' \<or> b = CHR ''X''"
    using assms by (cases S; cases "tl S") auto
  then show ?thesis
    by (auto simp add: isRadixDigit_def digitValue_def)
qed

lemma parseInt_radix_cases:
  "parseInt s None = parseInt s (Some 10) \<or> parseInt s (Some 10) = Some 0"
proof -
  define S where "S = dropWhile isWhiteSpace s"
  define sign :: int where "sign = (if S \<noteq> [] \<and> hd S = CHR ''-'' then - 1 else 1)"
  define S1 where "S1 = (if S \<noteq> [] \<and> (hd S = CHR ''+'' \<or> hd S = CHR ''-'') then tl S else S)"
  have p10: "parseInt s (Some 10) =
      (if takeWhile (isRadixDigit 10) S1 = [] then None
       else Some (sign * int (digitsValue 10 (takeWhile (isRadixDigit 10) S1))))"
    unfolding parseInt_def S_def sign_def S1_def Let_def by simp
  show ?thesis
  proof (cases "take 2 S1 = ''0x'' \<or> take 2 S1 = ''0X''")
    case True
    then have "takeWhile (isRadixDigit 10) S1 = ''0''" by (rule hex_prefix_decimal_zero)
    then have "parseInt s (Some 10) = Some 0"
      unfolding p10 by (simp add: digitsValue_def digitValue_def)
    then show ?thesis by simp
  next
    case False
    then have "parseInt s None = parseInt s (Some 10)"
      unfolding parseInt_def S_def sign_def S1_def Let_def by simp
    then show ?thesis by simp
  qed
qed

lemma parseInt_no_radix_decimal:
  "parseInt s (Some 10) = Some n \<Longrightarrow> n \<noteq> 0 \<Longrightarrow> parseInt s None = Some n"
  using parseInt_radix_cases [of s] by auto

lemma parseInt_no_radix_NaN:
  "parseInt s (Some 10) = None \<Longrightarrow> parseInt s None = None"
  using parseInt_radix_cases [of s] by auto




subsection \<open>The renderer's formatter and parser\<close>

lemma roundtrip_general:
  assumes "0 \<le> row" "row < board_size" "0 \<le> col" "col < board_size" "board_size \<le> 19"
  shows "GoBoard_parseCoordinate board_size (GoBoard_getCoordinate board_size row col) = Some (row, col)"
proof -
  have n: "0 \<le> board_size - row" using assms by simp
  have len: "\<not> length (GoBoard_getCoordinate board_size row col) < 2"
    using digit_string_nonempty [of "nat (board_size - row)"] n
    by (cases "digit_string (nat (board_size - row))") (simp_all add: GoBoard_getCoordinate_def Number_toString_def)
  have lc: "toUpperCase_charCodeAt0 (hd (GoBoard_getCoordinate board_size row col)) = (if col \<ge> 8 then 66 + col else 65 + col)"
    using letter_code [of col] assms by (simp add: GoBoard_getCoordinate_def)
  have pi: "parseInt (tl (GoBoard_getCoordinate board_size row col)) (Some 10) = Some (board_size - row)"
    using parseInt_Number_toString [OF n] by (simp add: GoBoard_getCoordinate_def)
  show ?thesis
    unfolding GoBoard_parseCoordinate_def using len lc pi assms by (simp add: Let_def)
qed



text \<open>
  C9. On a board of size 19 the coordinate \<open>Q16\<close> parses to row 3 and column 15, in the
  renderer's parser and in the controller's.
\<close>

theorem parseCoordinate_Q16:
  "GoBoard_parseCoordinate 19 ''Q16'' = Some (3, 15) \<and>
   page_parseCoordinate ''Q16'' 19 = Inr (Some 3, 15)"
  by (simp add: GoBoard_parseCoordinate_def page_parseCoordinate_def parseInt_def
      toUpperCase_charCodeAt0_def isWhiteSpace_def isRadixDigit_def digitValue_def
      digitsValue_def)

text \<open>
  C2. For a board of size 9, 13 or 19 and every intersection \<open>(row, col)\<close> on it, the
  renderer's parser maps the string that the renderer's formatter produces back to
  \<open>(row, col)\<close>. The formatter never writes the letter \<open>I\<close>: column 8 is written \<open>J\<close>.
\<close>

theorem getCoordinate_parseCoordinate_roundtrip:
  assumes "board_size \<in> {9, 13, 19}"
    and "0 \<le> row" and "row < board_size" and "0 \<le> col" and "col < board_size"
  shows "GoBoard_parseCoordinate board_size (GoBoard_getCoordinate board_size row col)
           = Some (row, col)
         \<and> hd (GoBoard_getCoordinate board_size row col) \<noteq> CHR ''I''
         \<and> (col = 8 \<longrightarrow> hd (GoBoard_getCoordinate board_size row col) = CHR ''J'')"
proof (intro conjI impI)
  have le: "board_size \<le> 19" using assms(1) by auto
  show "GoBoard_parseCoordinate board_size (GoBoard_getCoordinate board_size row col)
          = Some (row, col)"
    using assms(2-5) le by (rule roundtrip_general)
  have "col \<le> 18" using assms(5) le by simp
  with assms(4) show "hd (GoBoard_getCoordinate board_size row col) \<noteq> CHR ''I''"
    using letter_not_I [of col] by (simp add: GoBoard_getCoordinate_def)
next
  assume "col = 8"
  then show "hd (GoBoard_getCoordinate board_size row col) = CHR ''J''"
    by (simp add: GoBoard_getCoordinate_def fromCharCode_def char_of_eq_iff)
qed

theorem getCoordinate_parseCoordinate_roundtrip_witness:
  "GoBoard_parseCoordinate 19 (GoBoard_getCoordinate 19 3 8) = Some (3, 8) \<and>
   hd (GoBoard_getCoordinate 19 3 8) = CHR ''J''"
  using getCoordinate_parseCoordinate_roundtrip [of 19 3 8] by simp

subsection \<open>The two parsers compared\<close>

text \<open>
  C10, as stated, fails: on a board of size 9 the string \<open>T5\<close> has a letter among
  \<open>A\<close>-\<open>H\<close>, \<open>J\<close>-\<open>T\<close> and a number within the board size, and the renderer rejects it while
  the controller returns \<open>(4, 18)\<close>; on a board of size 19 the string \<open>A0x5\<close> has the letter
  \<open>A\<close>, the renderer rejects it, and the controller, reading \<open>0x5\<close> as hexadecimal,
  returns the pair \<open>(14, 0)\<close>, which is on the board.
\<close>

theorem parseCoordinate_parsers_counterexample:
  "GoBoard_parseCoordinate 9 ''T5'' = None \<and>
   page_parseCoordinate ''T5'' 9 = Inr (Some 4, 18) \<and>
   GoBoard_parseCoordinate 19 ''A0x5'' = None \<and>
   page_parseCoordinate ''A0x5'' 19 = Inr (Some 14, 0)"
  by (simp add: GoBoard_parseCoordinate_def page_parseCoordinate_def parseInt_def
      toUpperCase_charCodeAt0_def isWhiteSpace_def isRadixDigit_def digitValue_def
      digitsValue_def)

text \<open>
  C10, amended. For every board size \<open>N\<close> and every coordinate string whose letter,
  upper-cased, is one of \<open>A\<close>-\<open>H\<close> or \<open>J\<close>-\<open>T\<close> with a column index below \<open>N\<close>, and whose
  number, read in decimal, is between 1 and \<open>N\<close>, both parsers return the same
  \<open>(row, col)\<close>. Whenever the renderer returns a pair and the letter is not \<open>I\<close>, the
  controller returns that pair; on the letter \<open>I\<close> the renderer's column is 8 and the
  controller's is 7. Where the renderer returns null and the controller returns a pair
  on the board, the letter is \<open>I\<close> or the number carries a \<open>0x\<close> prefix (it is 0 in
  decimal and not 0 for the controller).
\<close>

theorem parseCoordinate_parsers_agree:
  "(coord = l # rest \<and> k = toUpperCase_charCodeAt0 l \<and> (65 \<le> k \<and> k \<le> 72 \<or> 74 \<le> k \<and> k \<le> 84)
      \<and> col = (if k > 73 then k - 66 else k - 65) \<and> col < N
      \<and> parseInt rest (Some 10) = Some n \<and> 1 \<le> n \<and> n \<le> N
    \<longrightarrow> GoBoard_parseCoordinate N coord = Some (N - n, col)
        \<and> page_parseCoordinate coord N = Inr (Some (N - n), col))
   \<and> (GoBoard_parseCoordinate N coord = Some (r, c) \<and> toUpperCase_charCodeAt0 (hd coord) \<noteq> 73
    \<longrightarrow> page_parseCoordinate coord N = Inr (Some r, c))
   \<and> (GoBoard_parseCoordinate N coord = Some (r, c) \<and> toUpperCase_charCodeAt0 (hd coord) = 73
    \<longrightarrow> c = 8 \<and> page_parseCoordinate coord N = Inr (Some r, 7))
   \<and> (GoBoard_parseCoordinate N coord = None \<and> page_parseCoordinate coord N = Inr (Some r, c)
        \<and> 0 \<le> r \<and> r < N \<and> 0 \<le> c \<and> c < N
    \<longrightarrow> toUpperCase_charCodeAt0 (hd coord) = 73
        \<or> parseInt (tl coord) (Some 10) = Some 0 \<and> parseInt (tl coord) None \<noteq> Some 0)"
proof (intro conjI impI)
  assume a: "coord = l # rest \<and> k = toUpperCase_charCodeAt0 l \<and> (65 \<le> k \<and> k \<le> 72 \<or> 74 \<le> k \<and> k \<le> 84)
      \<and> col = (if k > 73 then k - 66 else k - 65) \<and> col < N
      \<and> parseInt rest (Some 10) = Some n \<and> 1 \<le> n \<and> n \<le> N"
  then have p: "parseInt rest None = Some n"
    using parseInt_no_radix_decimal [of rest n] by simp
  from a have ne: "rest \<noteq> []" by (auto simp add: parseInt_def)
  from a ne show "GoBoard_parseCoordinate N coord = Some (N - n, col)"
    by (cases rest) (auto simp add: GoBoard_parseCoordinate_def Let_def)
  from a p show "page_parseCoordinate coord N = Inr (Some (N - n), col)"
    by (auto simp add: page_parseCoordinate_def Let_def)
next
  assume a: "GoBoard_parseCoordinate N coord = Some (r, c) \<and> toUpperCase_charCodeAt0 (hd coord) \<noteq> 73"
  then obtain l rest where co: "coord = l # rest"
    by (cases coord) (auto simp add: GoBoard_parseCoordinate_def)
  from a obtain n where n: "parseInt rest (Some 10) = Some n" "r = N - n" "r < N"
    and c: "c = (if toUpperCase_charCodeAt0 l > 73 then toUpperCase_charCodeAt0 l - 66 else toUpperCase_charCodeAt0 l - 65)"
    by (auto simp add: GoBoard_parseCoordinate_def co Let_def split: if_splits option.splits)
  from n have "parseInt rest None = Some n"
    using parseInt_no_radix_decimal [of rest n] by simp
  with a n c show "page_parseCoordinate coord N = Inr (Some r, c)"
    by (auto simp add: page_parseCoordinate_def co Let_def)
next
  assume a: "GoBoard_parseCoordinate N coord = Some (r, c) \<and> toUpperCase_charCodeAt0 (hd coord) = 73"
  then obtain l rest where co: "coord = l # rest"
    by (cases coord) (auto simp add: GoBoard_parseCoordinate_def)
  from a obtain n where n: "parseInt rest (Some 10) = Some n" "r = N - n" "r < N" and c: "c = 8"
    by (auto simp add: GoBoard_parseCoordinate_def co Let_def split: if_splits option.splits)
  from n have "parseInt rest None = Some n"
    using parseInt_no_radix_decimal [of rest n] by simp
  with a n show "page_parseCoordinate coord N = Inr (Some r, 7)"
    by (auto simp add: page_parseCoordinate_def co Let_def)
  show "c = 8" by (rule c)
next
  assume a: "GoBoard_parseCoordinate N coord = None \<and> page_parseCoordinate coord N = Inr (Some r, c)
        \<and> 0 \<le> r \<and> r < N \<and> 0 \<le> c \<and> c < N"
  then obtain l rest where co: "coord = l # rest"
    by (cases coord) (auto simp add: page_parseCoordinate_def)
  from a obtain m where m: "parseInt rest None = Some m" "r = N - m"
    and c: "c = (if toUpperCase_charCodeAt0 l - 65 \<ge> 8 then toUpperCase_charCodeAt0 l - 65 - 1 else toUpperCase_charCodeAt0 l - 65)"
    by (auto simp add: page_parseCoordinate_def co Let_def)
  from m have ne: "rest \<noteq> []" by (auto simp add: parseInt_def)
  show "toUpperCase_charCodeAt0 (hd coord) = 73
        \<or> parseInt (tl coord) (Some 10) = Some 0 \<and> parseInt (tl coord) None \<noteq> Some 0"
  proof (cases "parseInt rest (Some 10) = Some m")
    case True
    with a m c ne have "toUpperCase_charCodeAt0 l = 73"
      by (cases rest) (auto simp add: GoBoard_parseCoordinate_def co Let_def split: if_splits)
    then show ?thesis by (simp add: co)
  next
    case False
    with m parseInt_radix_cases [of rest] have z: "parseInt rest (Some 10) = Some 0" by auto
    with False have "m \<noteq> 0" by auto
    with z m show ?thesis by (simp add: co)
  qed
qed

theorem parseCoordinate_parsers_agree_witness:
  "GoBoard_parseCoordinate 19 ''q16'' = Some (3, 15) \<and>
   page_parseCoordinate ''q16'' 19 = Inr (Some 3, 15) \<and>
   GoBoard_parseCoordinate 19 ''I5'' = Some (14, 8) \<and>
   page_parseCoordinate ''I5'' 19 = Inr (Some 14, 7) \<and>
   GoBoard_parseCoordinate 19 ''A0x5'' = None \<and>
   page_parseCoordinate ''A0x5'' 19 = Inr (Some 14, 0) \<and>
   parseInt (tl ''A0x5'') (Some 10) = Some 0 \<and> parseInt (tl ''A0x5'') None \<noteq> Some 0"
proof -
  note defs = GoBoard_parseCoordinate_def page_parseCoordinate_def parseInt_def
      toUpperCase_charCodeAt0_def isWhiteSpace_def isRadixDigit_def digitValue_def
      digitsValue_def
  have h1: "''q16'' = CHR ''q'' # ''16'' \<and> (81::int) = toUpperCase_charCodeAt0 (CHR ''q'') \<and>
      (65 \<le> (81::int) \<and> (81::int) \<le> 72 \<or> 74 \<le> (81::int) \<and> (81::int) \<le> 84) \<and>
      (15::int) = (if 73 < (81::int) then 81 - 66 else 81 - 65) \<and> (15::int) < 19 \<and>
      parseInt ''16'' (Some 10) = Some 16 \<and> (1::int) \<le> 16 \<and> (16::int) \<le> 19"
    by (simp add: defs)
  have c1: "GoBoard_parseCoordinate 19 ''q16'' = Some (19 - 16, 15) \<and>
      page_parseCoordinate ''q16'' 19 = Inr (Some (19 - 16), 15)"
    using parseCoordinate_parsers_agree
            [of "''q16''" "CHR ''q''" "''16''" 81 15 19 16 r c, THEN conjunct1, THEN mp, OF h1] .
  have h2: "GoBoard_parseCoordinate 19 ''I5'' = Some (14, 8) \<and>
      toUpperCase_charCodeAt0 (hd ''I5'') = 73"
    by (simp add: defs)
  have c2: "(8::int) = 8 \<and> page_parseCoordinate ''I5'' 19 = Inr (Some 14, 7)"
    using parseCoordinate_parsers_agree
            [of "''I5''" l rest k col 19 n 14 8, THEN conjunct2, THEN conjunct2, THEN conjunct1,
             THEN mp, OF h2] .
  have h3: "GoBoard_parseCoordinate 19 ''A0x5'' = None \<and>
      page_parseCoordinate ''A0x5'' 19 = Inr (Some 14, 0) \<and>
      (0::int) \<le> 14 \<and> (14::int) < 19 \<and> (0::int) \<le> 0 \<and> (0::int) < 19"
    by (simp add: defs)
  have c3: "toUpperCase_charCodeAt0 (hd ''A0x5'') = 73 \<or>
      parseInt (tl ''A0x5'') (Some 10) = Some 0 \<and> parseInt (tl ''A0x5'') None \<noteq> Some 0"
    using parseCoordinate_parsers_agree
            [of "''A0x5''" l rest k col 19 n 14 0, THEN conjunct2, THEN conjunct2, THEN conjunct2,
             THEN mp, OF h3] .
  have nI: "toUpperCase_charCodeAt0 (hd ''A0x5'') \<noteq> 73"
    by (simp add: toUpperCase_charCodeAt0_def)
  from c1 have "GoBoard_parseCoordinate 19 ''q16'' = Some (3, 15)"
    and "page_parseCoordinate ''q16'' 19 = Inr (Some 3, 15)" by simp_all
  with c2 c3 nI h2 h3 show ?thesis by blast
qed


section \<open>Properties of the star points\<close>

lemma starPoints_19:
  "(case renderStarPoints 19 of Inl e \<Rightarrow> False
    | Inr stars \<Rightarrow> set (star_points stars) =
        {(3,3),(3,9),(3,15),(9,3),(9,9),(9,15),(15,3),(15,9),(15,15)})"
  by code_simp

lemma starPoints_13:
  "(case renderStarPoints 13 of Inl e \<Rightarrow> False
    | Inr stars \<Rightarrow> set (star_points stars) = {(3,3),(3,9),(9,3),(9,9)})"
  by code_simp

lemma starPoints_9:
  "(case renderStarPoints 9 of Inl e \<Rightarrow> False
    | Inr stars \<Rightarrow> set (star_points stars) = {(2,2),(2,6),(6,2),(6,6),(4,4)})"
  by code_simp

text \<open>
  C8. The intersections marked by \<open>renderStarPoints\<close> are exactly the nine points with
  coordinates among 3, 9, 15 on a board of size 19, exactly the four points with
  coordinates among 3, 9 on a board of size 13, and exactly the four points with
  coordinates among 2, 6 together with the centre \<open>(4, 4)\<close> on a board of size 9.
\<close>

theorem renderStarPoints_sets:
  "(case renderStarPoints 19 of Inl e \<Rightarrow> False
    | Inr stars \<Rightarrow> set (star_points stars) =
        {(3,3),(3,9),(3,15),(9,3),(9,9),(9,15),(15,3),(15,9),(15,15)})
   \<and> (case renderStarPoints 13 of Inl e \<Rightarrow> False
    | Inr stars \<Rightarrow> set (star_points stars) = {(3,3),(3,9),(9,3),(9,9)})
   \<and> (case renderStarPoints 9 of Inl e \<Rightarrow> False
    | Inr stars \<Rightarrow> set (star_points stars) = {(2,2),(2,6),(6,2),(6,6),(4,4)})"
  using starPoints_19 starPoints_13 starPoints_9 by (intro conjI)

section \<open>Properties of the game setup\<close>

text \<open>
  C3. The condition \<open>llmShouldMoveFirst\<close> holds exactly when the handicap is 0 and the
  user plays White, or the handicap is positive and the user plays Black; it holds in
  these two combinations and fails in the other two (handicap 0 with Black, positive
  handicap with White).
\<close>

theorem llmShouldMoveFirst_cases:
  "(llmShouldMoveFirst config \<longleftrightarrow>
      (cfg_handicap config = 0 \<and> cfg_userColor config = ''W'') \<or>
      (cfg_handicap config > 0 \<and> cfg_userColor config = ''B''))
   \<and> (cfg_handicap config = 0 \<and> cfg_userColor config = ''W'' \<longrightarrow> llmShouldMoveFirst config)
   \<and> (cfg_handicap config > 0 \<and> cfg_userColor config = ''B'' \<longrightarrow> llmShouldMoveFirst config)
   \<and> (cfg_handicap config = 0 \<and> cfg_userColor config = ''B'' \<longrightarrow> \<not> llmShouldMoveFirst config)
   \<and> (cfg_handicap config > 0 \<and> cfg_userColor config = ''W'' \<longrightarrow> \<not> llmShouldMoveFirst config)"
  by (auto simp add: llmShouldMoveFirst_def)

theorem llmShouldMoveFirst_cases_witness:
  "llmShouldMoveFirst \<lparr>cfg_boardSize = 19, cfg_komi = 13 / 2, cfg_handicap = 0, cfg_userColor = ''W'', cfg_persona = ''chill''\<rparr>
   \<and> llmShouldMoveFirst \<lparr>cfg_boardSize = 19, cfg_komi = 1 / 2, cfg_handicap = 2, cfg_userColor = ''B'', cfg_persona = ''chill''\<rparr>
   \<and> \<not> llmShouldMoveFirst \<lparr>cfg_boardSize = 19, cfg_komi = 13 / 2, cfg_handicap = 0, cfg_userColor = ''B'', cfg_persona = ''chill''\<rparr>
   \<and> \<not> llmShouldMoveFirst \<lparr>cfg_boardSize = 19, cfg_komi = 1 / 2, cfg_handicap = 2, cfg_userColor = ''W'', cfg_persona = ''chill''\<rparr>"
  using llmShouldMoveFirst_cases [of "\<lparr>cfg_boardSize = 19, cfg_komi = 13 / 2, cfg_handicap = 0, cfg_userColor = ''W'', cfg_persona = ''chill''\<rparr>"]
    llmShouldMoveFirst_cases [of "\<lparr>cfg_boardSize = 19, cfg_komi = 1 / 2, cfg_handicap = 2, cfg_userColor = ''B'', cfg_persona = ''chill''\<rparr>"]
    llmShouldMoveFirst_cases [of "\<lparr>cfg_boardSize = 19, cfg_komi = 13 / 2, cfg_handicap = 0, cfg_userColor = ''B'', cfg_persona = ''chill''\<rparr>"]
    llmShouldMoveFirst_cases [of "\<lparr>cfg_boardSize = 19, cfg_komi = 1 / 2, cfg_handicap = 2, cfg_userColor = ''W'', cfg_persona = ''chill''\<rparr>"]
  by simp

section \<open>Properties of the API client\<close>

lemma try_returns_nonempty:
  "getKataGoBoardState_try fetch MCP_BASE = Inr (Some kb) \<Longrightarrow> k_board kb \<noteq> []"
  by (auto simp add: getKataGoBoardState_try_def split: sum.splits if_splits)

text \<open>
  C4. \<open>getKataGoBoardState\<close> never throws: for every behaviour of \<open>fetch\<close> it returns a
  value, a board state with a non-empty grid or null. Its request carries a timeout of
  10000 milliseconds. It returns null when \<open>fetch\<close> is rejected (a network failure, the
  expired timeout), when the status is not a success, when the body is not JSON, when
  the parsed body has no usable \<open>result\<close>, and when \<open>result.board\<close> is missing, not an
  array or empty.
\<close>

theorem getKataGoBoardState_never_throws:
  "(\<exists>r. getKataGoBoardState fetch MCP_BASE = Inr r)
   \<and> signal_timeout (board_state_request MCP_BASE) = Some 10000
   \<and> (fetch (board_state_request MCP_BASE) = Inl e
        \<longrightarrow> getKataGoBoardState fetch MCP_BASE = Inr None)
   \<and> (fetch (board_state_request MCP_BASE) = Inr res \<and> \<not> ok res
        \<longrightarrow> getKataGoBoardState fetch MCP_BASE = Inr None)
   \<and> (fetch (board_state_request MCP_BASE) = Inr res \<and> res_json res = Inl e
        \<longrightarrow> getKataGoBoardState fetch MCP_BASE = Inr None)
   \<and> (fetch (board_state_request MCP_BASE) = Inr res \<and> res_json res = Inr data
        \<and> (get_property (Some data) ''result'' = Inl e
            \<or> get_property (Some data) ''result'' = Inr result \<and> \<not> truthy result)
        \<longrightarrow> getKataGoBoardState fetch MCP_BASE = Inr None)
   \<and> (fetch (board_state_request MCP_BASE) = Inr res \<and> res_json res = Inr data
        \<and> get_property (Some data) ''result'' = Inr result
        \<and> get_property result ''board'' = Inr board
        \<and> (\<not> truthy board \<or> \<not> Array_isArray board \<or> elements board = [])
        \<longrightarrow> getKataGoBoardState fetch MCP_BASE = Inr None)
   \<and> (getKataGoBoardState fetch MCP_BASE = Inr (Some kb) \<longrightarrow> k_board kb \<noteq> [])"
proof (intro conjI impI)
  show "\<exists>r. getKataGoBoardState fetch MCP_BASE = Inr r"
    by (cases "getKataGoBoardState_try fetch MCP_BASE") (simp_all add: getKataGoBoardState_def)
  show "signal_timeout (board_state_request MCP_BASE) = Some 10000"
    by (simp add: board_state_request_def)
next
  assume "fetch (board_state_request MCP_BASE) = Inl e"
  then show "getKataGoBoardState fetch MCP_BASE = Inr None"
    by (simp add: getKataGoBoardState_def getKataGoBoardState_try_def)
next
  assume "fetch (board_state_request MCP_BASE) = Inr res \<and> \<not> ok res"
  then show "getKataGoBoardState fetch MCP_BASE = Inr None"
    by (simp add: getKataGoBoardState_def getKataGoBoardState_try_def)
next
  assume "fetch (board_state_request MCP_BASE) = Inr res \<and> res_json res = Inl e"
  then show "getKataGoBoardState fetch MCP_BASE = Inr None"
    by (simp add: getKataGoBoardState_def getKataGoBoardState_try_def)
next
  assume "fetch (board_state_request MCP_BASE) = Inr res \<and> res_json res = Inr data
        \<and> (get_property (Some data) ''result'' = Inl e
            \<or> get_property (Some data) ''result'' = Inr result \<and> \<not> truthy result)"
  then show "getKataGoBoardState fetch MCP_BASE = Inr None"
    by (auto simp add: getKataGoBoardState_def getKataGoBoardState_try_def)
next
  assume "fetch (board_state_request MCP_BASE) = Inr res \<and> res_json res = Inr data
        \<and> get_property (Some data) ''result'' = Inr result
        \<and> get_property result ''board'' = Inr board
        \<and> (\<not> truthy board \<or> \<not> Array_isArray board \<or> elements board = [])"
  then show "getKataGoBoardState fetch MCP_BASE = Inr None"
    by (auto simp add: getKataGoBoardState_def getKataGoBoardState_try_def)
next
  assume "getKataGoBoardState fetch MCP_BASE = Inr (Some kb)"
  then have "getKataGoBoardState_try fetch MCP_BASE = Inr (Some kb)"
    by (simp add: getKataGoBoardState_def split: sum.splits)
  then show "k_board kb \<noteq> []" by (rule try_returns_nonempty)
qed

theorem getKataGoBoardState_never_throws_witness:
  "getKataGoBoardState (\<lambda>rq. Inl TimeoutError) ''http://localhost:3001'' = Inr None \<and>
   getKataGoBoardState (\<lambda>rq. Inl NetworkError) ''http://localhost:3001'' = Inr None \<and>
   getKataGoBoardState (\<lambda>rq. Inr (example_response False (Inr JNull))) ''http://localhost:3001''
     = Inr None \<and>
   getKataGoBoardState (\<lambda>rq. Inr (example_response True (Inl SyntaxError))) ''http://localhost:3001''
     = Inr None \<and>
   getKataGoBoardState (\<lambda>rq. Inr (example_response True (Inr (JObj [])))) ''http://localhost:3001''
     = Inr None \<and>
   getKataGoBoardState
     (\<lambda>rq. Inr (example_response True (Inr (JObj [(''result'', JObj [(''board'', JArr [])])]))))
     ''http://localhost:3001'' = Inr None"
proof -
  let ?b = "''http://localhost:3001''"
  have 1: "getKataGoBoardState (\<lambda>rq. Inl TimeoutError) ?b = Inr None"
    using getKataGoBoardState_never_throws [of "\<lambda>rq. Inl TimeoutError" ?b TimeoutError]
    by simp
  have 2: "getKataGoBoardState (\<lambda>rq. Inl NetworkError) ?b = Inr None"
    using getKataGoBoardState_never_throws [of "\<lambda>rq. Inl NetworkError" ?b NetworkError]
    by simp
  have 3: "getKataGoBoardState (\<lambda>rq. Inr (example_response False (Inr JNull))) ?b = Inr None"
    using getKataGoBoardState_never_throws
            [of "\<lambda>rq. Inr (example_response False (Inr JNull))" ?b _
                "example_response False (Inr JNull)"]
    by (simp add: example_response_def)
  have 4: "getKataGoBoardState (\<lambda>rq. Inr (example_response True (Inl SyntaxError))) ?b = Inr None"
    using getKataGoBoardState_never_throws
            [of "\<lambda>rq. Inr (example_response True (Inl SyntaxError))" ?b SyntaxError
                "example_response True (Inl SyntaxError)"]
    by (simp add: example_response_def)
  have 5: "getKataGoBoardState (\<lambda>rq. Inr (example_response True (Inr (JObj [])))) ?b = Inr None"
    using getKataGoBoardState_never_throws
            [of "\<lambda>rq. Inr (example_response True (Inr (JObj [])))" ?b _
                "example_response True (Inr (JObj []))" "JObj []" None]
    by (simp add: example_response_def)
  have 6: "getKataGoBoardState
     (\<lambda>rq. Inr (example_response True (Inr (JObj [(''result'', JObj [(''board'', JArr [])])])))) ?b
     = Inr None"
    using getKataGoBoardState_never_throws
            [of "\<lambda>rq. Inr (example_response True (Inr (JObj [(''result'', JObj [(''board'', JArr [])])])))"
                ?b _
                "example_response True (Inr (JObj [(''result'', JObj [(''board'', JArr [])])]))"
                "JObj [(''result'', JObj [(''board'', JArr [])])]"
                "Some (JObj [(''board'', JArr [])])" "Some (JArr [])"]
    by (simp add: example_response_def)
  from 1 2 3 4 5 6 show ?thesis by simp
qed

text \<open>
  C7, as stated, fails: on a response with a success status whose body is not JSON,
  \<open>sendChatMessage\<close> is rejected (by \<open>res.json()\<close>), so it does not throw only on a
  non-success status.
\<close>

theorem sendChatMessage_counterexample:
  "ok (example_response True (Inl SyntaxError)) \<and>
   sendChatMessage (\<lambda>rq. Inr (example_response True (Inl SyntaxError))) ''http://localhost:8000/api''
     7 ''hello'' ''user'' = Inl SyntaxError"
  by (simp add: sendChatMessage_def example_response_def)

text \<open>
  C7, amended. \<open>sendChatMessage\<close> throws when \<open>fetch\<close> is rejected. Given a response,
  it throws whenever the status is not a success, and on a success status it settles as \<open>res.json()\<close> does; so, when the body
  parses as JSON, it throws exactly when the status is not a success. The other
  operations (create game, fetch board, submit move, fetch chat, first move) never look
  at the status: they settle as with any other status, and as \<open>res.json()\<close> does.
\<close>

theorem api_status_handling:
  "(fetch \<lparr>url = API_BASE @ ''/chat/send_message/'', http_method = ''POST'',
            body = Some (JObj [(''game_id'', JNum (of_int gameId)), (''content'', JStr content),
                               (''role'', JStr role)]),
            signal_timeout = None\<rparr> = Inl e
      \<longrightarrow> sendChatMessage fetch API_BASE gameId content role = Inl e)
   \<and> (fetch \<lparr>url = API_BASE @ ''/chat/send_message/'', http_method = ''POST'',
            body = Some (JObj [(''game_id'', JNum (of_int gameId)), (''content'', JStr content),
                               (''role'', JStr role)]),
            signal_timeout = None\<rparr> = Inr res
      \<longrightarrow> (\<not> ok res \<longrightarrow> isl (sendChatMessage fetch API_BASE gameId content role))
        \<and> (ok res \<longrightarrow> sendChatMessage fetch API_BASE gameId content role = res_json res)
        \<and> (\<not> isl (res_json res) \<longrightarrow>
             (isl (sendChatMessage fetch API_BASE gameId content role) \<longleftrightarrow> \<not> ok res)))
   \<and> createGame (with_status b st fetch) API_BASE boardSize komi handicap userColor persona
       = createGame fetch API_BASE boardSize komi handicap userColor persona
   \<and> getGameBoard (with_status b st fetch) API_BASE gameId = getGameBoard fetch API_BASE gameId
   \<and> submitMove (with_status b st fetch) API_BASE gameId coordinate
       = submitMove fetch API_BASE gameId coordinate
   \<and> getChatMessages (with_status b st fetch) API_BASE gameId
       = getChatMessages fetch API_BASE gameId
   \<and> getFirstMove (with_status b st fetch) API_BASE gameId = getFirstMove fetch API_BASE gameId
   \<and> createGame (\<lambda>rq. Inr res) API_BASE boardSize komi handicap userColor persona = res_json res
   \<and> getGameBoard (\<lambda>rq. Inr res) API_BASE gameId = res_json res
   \<and> submitMove (\<lambda>rq. Inr res) API_BASE gameId coordinate = res_json res
   \<and> getChatMessages (\<lambda>rq. Inr res) API_BASE gameId = res_json res
   \<and> getFirstMove (\<lambda>rq. Inr res) API_BASE gameId = res_json res"
proof (intro conjI impI)
  assume "fetch \<lparr>url = API_BASE @ ''/chat/send_message/'', http_method = ''POST'',
            body = Some (JObj [(''game_id'', JNum (of_int gameId)), (''content'', JStr content),
                               (''role'', JStr role)]),
            signal_timeout = None\<rparr> = Inl e"
  then show "sendChatMessage fetch API_BASE gameId content role = Inl e"
    by (simp add: sendChatMessage_def)
next
  assume f: "fetch \<lparr>url = API_BASE @ ''/chat/send_message/'', http_method = ''POST'',
            body = Some (JObj [(''game_id'', JNum (of_int gameId)), (''content'', JStr content),
                               (''role'', JStr role)]),
            signal_timeout = None\<rparr> = Inr res"
  {
    assume "\<not> ok res"
    with f show "isl (sendChatMessage fetch API_BASE gameId content role)"
      by (simp add: sendChatMessage_def split: sum.splits)
  }
  {
    assume "ok res"
    with f show "sendChatMessage fetch API_BASE gameId content role = res_json res"
      by (simp add: sendChatMessage_def)
  }
  {
    assume "\<not> isl (res_json res)"
    with f show "isl (sendChatMessage fetch API_BASE gameId content role) \<longleftrightarrow> \<not> ok res"
      by (simp add: sendChatMessage_def split: sum.splits)
  }
qed (simp_all add: createGame_def getGameBoard_def submitMove_def getChatMessages_def
      getFirstMove_def with_status_def split: sum.splits)

theorem api_status_handling_witness:
  "sendChatMessage (\<lambda>rq. Inl NetworkError) ''http://localhost:8000/api'' 7 ''hello'' ''user''
     = Inl NetworkError \<and>
   isl (sendChatMessage (\<lambda>rq. Inr (example_response False (Inr JNull))) ''http://localhost:8000/api''
     7 ''hello'' ''user'') \<and>
   sendChatMessage (\<lambda>rq. Inr (example_response True (Inr JNull))) ''http://localhost:8000/api''
     7 ''hello'' ''user'' = Inr JNull"
  using api_status_handling
          [of "\<lambda>rq. Inl NetworkError" "''http://localhost:8000/api''"
              7 "''hello''" "''user''" NetworkError]
        api_status_handling
          [of "\<lambda>rq. Inr (example_response False (Inr JNull))" "''http://localhost:8000/api''"
              7 "''hello''" "''user''" _ "example_response False (Inr JNull)"]
        api_status_handling
          [of "\<lambda>rq. Inr (example_response True (Inr JNull))" "''http://localhost:8000/api''"
              7 "''hello''" "''user''" _ "example_response True (Inr JNull)"]
  by (simp add: example_response_def)

section \<open>Properties of move submission\<close>

lemma handleMoveSubmit_guard:
  "isSubmitting s \<Longrightarrow> handleMoveSubmit env coordinate s = (s, None)"
  by (simp add: handleMoveSubmit_def split: option.splits)

lemma begin_isSubmitting:
  "isSubmitting (handleMoveSubmit_begin env game0 coordinate row col s)"
  by (simp add: handleMoveSubmit_begin_def)

lemma begin_fields:
  "game (handleMoveSubmit_begin env game0 coordinate row col s) = game s"
  "boardState (handleMoveSubmit_begin env game0 coordinate row col s) = boardState s"
  "messages (handleMoveSubmit_begin env game0 coordinate row col s) =
     messages s @ [user_entry (Date_now_userMsgId env) coordinate (toISOString_optimistic env)]"
  by (simp_all add: handleMoveSubmit_begin_def)

lemma handleMoveSubmit_unfold:
  assumes "game s = Some game0" and "\<not> isSubmitting s"
    and "page_parseCoordinate coordinate (g_board_size game0) = Inr (row, col)"
    and "handleMoveSubmit_try env game0 coordinate (Date_now_userMsgId env)
           (handleMoveSubmit_begin env game0 coordinate row col s) = (s5, thrown)"
  shows "handleMoveSubmit env coordinate s =
     ((case thrown of
         None \<Rightarrow> s5
       | Some err \<Rightarrow>
           s5\<lparr>error := Some ''Failed to submit move'',
              messages := filter (\<lambda>m. c_id m \<noteq> Date_now_userMsgId env) (messages s5)\<rparr>)
        \<lparr>isSubmitting := False, isThinking := False, pendingMove := None\<rparr>, None)"
  using assms by (simp add: handleMoveSubmit_def Let_def)

lemma example_parse: "page_parseCoordinate ''Q16'' (g_board_size example_game) = Inr (Some 3, 15)"
  by (simp add: example_game_def page_parseCoordinate_def parseInt_def
      toUpperCase_charCodeAt0_def isWhiteSpace_def isRadixDigit_def digitValue_def
      digitsValue_def)

text \<open>
  C6. In every state whose in-flight flag \<open>isSubmitting\<close> is set, \<open>handleMoveSubmit\<close>
  returns at its guard and changes nothing, the message list and the board state
  included; the renderer's \<open>handleCellClick\<close> does not even call it. The state shown
  while a move is in flight has the flag set, so a second submission there is a no-op.
\<close>

theorem handleMoveSubmit_in_flight_noop:
  "(isSubmitting s \<longrightarrow>
      handleMoveSubmit env coordinate s = (s, None)
      \<and> handleCellClick env board_size row col s = (s, None)
      \<and> messages (fst (handleMoveSubmit env coordinate s)) = messages s
      \<and> boardState (fst (handleMoveSubmit env coordinate s)) = boardState s)
   \<and> isSubmitting (handleMoveSubmit_begin env0 game0 coordinate0 row0 col0 s0)
   \<and> handleMoveSubmit env coordinate (handleMoveSubmit_begin env0 game0 coordinate0 row0 col0 s0)
       = (handleMoveSubmit_begin env0 game0 coordinate0 row0 col0 s0, None)"
  by (simp add: handleMoveSubmit_guard begin_isSubmitting handleCellClick_def)

theorem handleMoveSubmit_in_flight_noop_witness:
  "isSubmitting (example_state\<lparr>isSubmitting := True\<rparr>) \<and>
   handleMoveSubmit example_env ''Q16'' (example_state\<lparr>isSubmitting := True\<rparr>)
     = (example_state\<lparr>isSubmitting := True\<rparr>, None) \<and>
   handleCellClick example_env 19 3 15 (example_state\<lparr>isSubmitting := True\<rparr>)
     = (example_state\<lparr>isSubmitting := True\<rparr>, None)"
  using handleMoveSubmit_in_flight_noop
          [of "example_state\<lparr>isSubmitting := True\<rparr>" example_env "''Q16''" 19 3 15]
  by simp

text \<open>
  C5. When \<open>submitMove\<close> is rejected, the optimistic user entry that the handler appended
  before the call is no longer in the message list afterwards (the list is the prior
  one without the entries of that identifier, hence the prior list when the identifier
  is fresh), the error banner is \<open>Failed to submit move\<close>, and \<open>isSubmitting\<close>,
  \<open>isThinking\<close> and the pending ghost stone are cleared.
\<close>

theorem handleMoveSubmit_failure:
  assumes "game s = Some game0" and "\<not> isSubmitting s"
    and "page_parseCoordinate coordinate (g_board_size game0) = Inr (row, col)"
    and "env_submitMove env (g_id game0) coordinate = Inl e"
  shows "handleMoveSubmit env coordinate s =
           (s\<lparr>previewCoord := None, error := Some ''Failed to submit move'',
              messages := filter (\<lambda>m. c_id m \<noteq> Date_now_userMsgId env) (messages s),
              isSubmitting := False, isThinking := False, pendingMove := None\<rparr>, None)
         \<and> user_entry (Date_now_userMsgId env) coordinate (toISOString_optimistic env)
             \<in> set (messages (handleMoveSubmit_begin env game0 coordinate row col s))
         \<and> user_entry (Date_now_userMsgId env) coordinate (toISOString_optimistic env)
             \<notin> set (messages (fst (handleMoveSubmit env coordinate s)))
         \<and> error (fst (handleMoveSubmit env coordinate s)) = Some ''Failed to submit move''
         \<and> \<not> isSubmitting (fst (handleMoveSubmit env coordinate s))
         \<and> \<not> isThinking (fst (handleMoveSubmit env coordinate s))
         \<and> pendingMove (fst (handleMoveSubmit env coordinate s)) = None
         \<and> ((\<forall>m \<in> set (messages s). c_id m \<noteq> Date_now_userMsgId env)
              \<longrightarrow> messages (fst (handleMoveSubmit env coordinate s)) = messages s)"
proof -
  let ?s4 = "handleMoveSubmit_begin env game0 coordinate row col s"
  have t: "handleMoveSubmit_try env game0 coordinate (Date_now_userMsgId env) ?s4 = (?s4, Some e)"
    using assms(4) by (simp add: handleMoveSubmit_try_def)
  have r: "handleMoveSubmit env coordinate s =
           (s\<lparr>previewCoord := None, error := Some ''Failed to submit move'',
              messages := filter (\<lambda>m. c_id m \<noteq> Date_now_userMsgId env) (messages s),
              isSubmitting := False, isThinking := False, pendingMove := None\<rparr>, None)"
    unfolding handleMoveSubmit_unfold [OF assms(1-3) t]
    by (simp add: handleMoveSubmit_begin_def user_entry_def)
  have id: "c_id (user_entry (Date_now_userMsgId env) coordinate (toISOString_optimistic env))
              = Date_now_userMsgId env"
    by (simp add: user_entry_def)
  have notin: "user_entry (Date_now_userMsgId env) coordinate (toISOString_optimistic env)
             \<notin> set (messages (fst (handleMoveSubmit env coordinate s)))"
    using id by (auto simp add: r)
  have same: "(\<forall>m \<in> set (messages s). c_id m \<noteq> Date_now_userMsgId env)
              \<longrightarrow> messages (fst (handleMoveSubmit env coordinate s)) = messages s"
    by (simp add: r filter_id_conv)
  show ?thesis
    using r notin same by (simp add: begin_fields)
qed

theorem handleMoveSubmit_failure_witness:
  "messages (fst (handleMoveSubmit
       (example_env\<lparr>env_submitMove := (\<lambda>gameId coordinate. Inl NetworkError)\<rparr>) ''Q16''
       example_state)) = messages example_state \<and>
   error (fst (handleMoveSubmit
       (example_env\<lparr>env_submitMove := (\<lambda>gameId coordinate. Inl NetworkError)\<rparr>) ''Q16''
       example_state)) = Some ''Failed to submit move'' \<and>
   pendingMove (fst (handleMoveSubmit
       (example_env\<lparr>env_submitMove := (\<lambda>gameId coordinate. Inl NetworkError)\<rparr>) ''Q16''
       example_state)) = None"
proof -
  let ?env = "example_env\<lparr>env_submitMove := (\<lambda>gameId coordinate. Inl NetworkError)\<rparr>"
  have g: "game example_state = Some example_game" and n: "\<not> isSubmitting example_state"
    by (simp_all add: example_state_def)
  have f: "env_submitMove ?env (g_id example_game) ''Q16'' = Inl NetworkError" by simp
  have ids: "\<forall>m \<in> set (messages example_state). c_id m \<noteq> Date_now_userMsgId ?env"
    by (simp add: example_state_def example_env_def)
  from handleMoveSubmit_failure [OF g n example_parse f] ids show ?thesis by simp
qed
















end
